theory Spec2Isabelle
  imports Main "HOL-Library.Word"
begin

unbundle bit_operations_syntax

section \<open>Freetronics 128x128 OLED driver: the command layer of FTOLED.h\<close>

text \<open>
  The development embeds the inline methods of class \<open>OLED\<close> in \<open>FTOLED.h\<close>.
  An Arduino \<open>byte\<close> is an 8-bit unsigned value. Every operand of a C++ arithmetic or
  bitwise operator is promoted to \<open>int\<close> first; the promoted values are modelled as
  mathematical integers (\<open>uint\<close> is the promotion) and the conversion back to \<open>byte\<close>
  at a call or an assignment keeps the low eight bits (\<open>to_byte\<close>). No intermediate
  value of the header leaves the range of a 16-bit \<open>int\<close>.
\<close>

subsection \<open>Data\<close>

type_synonym byte = "8 word"

definition to_byte :: "int \<Rightarrow> byte" where
  "to_byte i = word_of_int i"

text \<open>\<open>#define ROWS 128\<close>, \<open>COLUMNS\<close>, \<open>ROW_MASK\<close>, \<open>COLUMN_MASK\<close>.\<close>

definition ROWS :: int where "ROWS = 128"
definition COLUMNS :: int where "COLUMNS = 128"
definition ROW_MASK :: int where "ROW_MASK = ROWS - 1"
definition COLUMN_MASK :: int where "COLUMN_MASK = COLUMNS - 1"

text \<open>
  \<open>struct Colour { byte red : 5; byte green : 6; byte blue : 5; }\<close>: three unsigned
  bit-fields, so each channel is a word of its declared width.
\<close>

record Colour =
  red :: "5 word"
  green :: "6 word"
  blue :: "5 word"

definition MAX_RED :: byte where "MAX_RED = 31"
definition MAX_GREEN :: byte where "MAX_GREEN = 63"
definition MAX_BLUE :: byte where "MAX_BLUE = 31"

text \<open>
  Storing a \<open>byte\<close> into a bit-field keeps the low bits that fit: the aggregate
  initialisation \<open>Colour c = { r, g, b }\<close> and the member assignments.
\<close>

definition Colour_init :: "byte \<Rightarrow> byte \<Rightarrow> byte \<Rightarrow> Colour" where
  "Colour_init r g b = \<lparr> red = ucast r, green = ucast g, blue = ucast b \<rparr>"

definition set_red :: "byte \<Rightarrow> Colour \<Rightarrow> Colour" where
  "set_red v c = c\<lparr> red := ucast v \<rparr>"

definition set_green :: "byte \<Rightarrow> Colour \<Rightarrow> Colour" where
  "set_green v c = c\<lparr> green := ucast v \<rparr>"

definition set_blue :: "byte \<Rightarrow> Colour \<Rightarrow> Colour" where
  "set_blue v c = c\<lparr> blue := ucast v \<rparr>"

datatype OLED_Display_Mode =
  DISPLAY_OFF | DISPLAY_ALL_PIXELS_FULL | DISPLAY_NORMAL | DISPLAY_INVERSE

fun display_mode_value :: "OLED_Display_Mode \<Rightarrow> int" where
  "display_mode_value DISPLAY_OFF = 0"
| "display_mode_value DISPLAY_ALL_PIXELS_FULL = 1"
| "display_mode_value DISPLAY_NORMAL = 2"
| "display_mode_value DISPLAY_INVERSE = 3"

datatype BMP_Status =
  BMP_OK | BMP_INVALID_FORMAT | BMP_UNSUPPORTED_HEADER | BMP_TOO_MANY_COLOURS
  | BMP_COMPRESSION_NOT_SUPPORTED | BMP_ORIGIN_OUTSIDE_IMAGE

fun bmp_status_value :: "BMP_Status \<Rightarrow> int" where
  "bmp_status_value BMP_OK = 0"
| "bmp_status_value BMP_INVALID_FORMAT = 1"
| "bmp_status_value BMP_UNSUPPORTED_HEADER = 2"
| "bmp_status_value BMP_TOO_MANY_COLOURS = 3"
| "bmp_status_value BMP_COMPRESSION_NOT_SUPPORTED = 4"
| "bmp_status_value BMP_ORIGIN_OUTSIDE_IMAGE = 5"

datatype OLED_Command_Lock =
  DISPLAY_COMMAND_UNLOCK | DISPLAY_COMMAND_LOCK
  | DISPLAY_COMMAND_LOCK_SPECIAL | DISPLAY_COMMAND_ALLOW_SPECIAL

fun command_lock_value :: "OLED_Command_Lock \<Rightarrow> int" where
  "command_lock_value DISPLAY_COMMAND_UNLOCK = 0x12"
| "command_lock_value DISPLAY_COMMAND_LOCK = 0x16"
| "command_lock_value DISPLAY_COMMAND_LOCK_SPECIAL = 0xB0"
| "command_lock_value DISPLAY_COMMAND_ALLOW_SPECIAL = 0xB1"

text \<open>The \<open>REMAP_*\<close> flags of \<open>setRemapFormat\<close> and \<open>setIncrementDirection\<close>.\<close>

definition REMAP_HORIZONTAL_INCREMENT :: int where "REMAP_HORIZONTAL_INCREMENT = 0"
definition REMAP_VERTICAL_INCREMENT :: int where "REMAP_VERTICAL_INCREMENT = push_bit 0 1"
definition REMAP_COLUMNS_LEFT_TO_RIGHT :: int where "REMAP_COLUMNS_LEFT_TO_RIGHT = 0"
definition REMAP_COLUMNS_RIGHT_TO_LEFT :: int where "REMAP_COLUMNS_RIGHT_TO_LEFT = push_bit 1 1"
definition REMAP_ORDER_BGR :: int where "REMAP_ORDER_BGR = 0"
definition REMAP_ORDER_RGB :: int where "REMAP_ORDER_RGB = push_bit 2 1"
definition REMAP_SCAN_UP_TO_DOWN :: int where "REMAP_SCAN_UP_TO_DOWN = 0"
definition REMAP_SCAN_DOWN_TO_UP :: int where "REMAP_SCAN_DOWN_TO_UP = push_bit 4 1"
definition REMAP_COM_SPLIT_ODD_EVEN :: int where "REMAP_COM_SPLIT_ODD_EVEN = push_bit 5 1"
definition REMAP_COLOR_8BIT :: int where "REMAP_COLOR_8BIT = 0"
definition REMAP_COLOR_RGB565 :: int where "REMAP_COLOR_RGB565 = push_bit 6 1"
definition REMAP_COLOR_18BIT :: int where "REMAP_COLOR_18BIT = push_bit 6 2"

subsection \<open>The bus\<close>

text \<open>
  The header reaches the panel through two calls only: \<open>digitalWrite(pin, level)\<close> and
  \<open>SPI.transfer(byte)\<close>. The state records them in the order they happen.
\<close>

datatype level = LOW | HIGH

datatype bus_event = DigitalWrite byte level | SPI_transfer byte

text \<open>
  The data members of \<open>OLED\<close> (the font pointer is not used by the header's inline
  methods and is left out), followed by the record of the bus.
\<close>

record OLED =
  pin_ncs :: byte
  pin_dc :: byte
  pin_reset :: byte
  remap_flags :: byte
  gpio_status :: byte
  wire :: "bus_event list"

definition digitalWrite :: "byte \<Rightarrow> level \<Rightarrow> OLED \<Rightarrow> OLED" where
  "digitalWrite pin v s = s\<lparr> wire := wire s @ [DigitalWrite pin v] \<rparr>"

definition SPI_transfer_byte :: "byte \<Rightarrow> OLED \<Rightarrow> OLED" where
  "SPI_transfer_byte b s = s\<lparr> wire := wire s @ [SPI_transfer b] \<rparr>"

text \<open>
  What the panel receives: a byte clocked out while the D/C line is low is a command
  byte, one clocked out while it is high is a data byte. \<open>frames dc l es\<close> reads the
  events \<open>es\<close> with the D/C line on pin \<open>dc\<close>, at level \<open>l\<close> before the first event.
\<close>

datatype frame = Command byte | Data byte

fun frames :: "byte \<Rightarrow> level \<Rightarrow> bus_event list \<Rightarrow> frame list" where
  "frames dc l [] = []"
| "frames dc l (DigitalWrite p v # es) = frames dc (if p = dc then v else l) es"
| "frames dc l (SPI_transfer b # es) =
     (case l of LOW \<Rightarrow> Command b | HIGH \<Rightarrow> Data b) # frames dc l es"

text \<open>The events a method adds to the bus: those after the first \<open>length (wire s)\<close>.\<close>

definition emitted :: "OLED \<Rightarrow> OLED \<Rightarrow> bus_event list" where
  "emitted s s' = drop (length (wire s)) (wire s')"

subsection \<open>Chip select, command and data writes\<close>

definition assertCS :: "OLED \<Rightarrow> OLED" where
  "assertCS s = digitalWrite (pin_ncs s) LOW s"

definition releaseCS :: "OLED \<Rightarrow> OLED" where
  "releaseCS s = digitalWrite (pin_ncs s) HIGH s"

definition writeCommand :: "byte \<Rightarrow> OLED \<Rightarrow> OLED" where
  "writeCommand command s =
     digitalWrite (pin_dc s) HIGH
       (SPI_transfer_byte command
         (digitalWrite (pin_dc s) LOW s))"

definition writeData :: "byte \<Rightarrow> OLED \<Rightarrow> OLED" where
  "writeData data s = SPI_transfer_byte data s"

text \<open>
  \<open>writeData(Colour)\<close>: both arguments are \<open>int\<close> expressions over the promoted
  bit-fields, converted to \<open>byte\<close> by the call to \<open>writeData(byte)\<close>.
\<close>

definition writeData_Colour :: "Colour \<Rightarrow> OLED \<Rightarrow> OLED" where
  "writeData_Colour colour s =
     writeData (to_byte (push_bit 5 (uint (green colour)) OR uint (blue colour)))
       (writeData (to_byte (drop_bit 3 (uint (green colour)) OR push_bit 3 (uint (red colour)))) s)"

definition writeCommand2 :: "byte \<Rightarrow> byte \<Rightarrow> OLED \<Rightarrow> OLED" where
  "writeCommand2 command data s = writeData data (writeCommand command s)"

subsection \<open>Window commands\<close>

definition setColumn :: "byte \<Rightarrow> byte \<Rightarrow> OLED \<Rightarrow> OLED" where
  "setColumn start end s = writeData end (writeData start (writeCommand 0x15 s))"

definition setRow :: "byte \<Rightarrow> byte \<Rightarrow> OLED \<Rightarrow> OLED" where
  "setRow start end s = writeData end (writeData start (writeCommand 0x75 s))"

definition setWriteRam :: "OLED \<Rightarrow> OLED" where
  "setWriteRam s = writeCommand 0x5C s"

subsection \<open>Configuration commands\<close>

definition setDisplayMode :: "OLED_Display_Mode \<Rightarrow> OLED \<Rightarrow> OLED" where
  "setDisplayMode mode s =
     releaseCS (writeCommand (to_byte (0xA4 + uint (to_byte (display_mode_value mode)))) (assertCS s))"

definition setCommandLock :: "OLED_Command_Lock \<Rightarrow> OLED \<Rightarrow> OLED" where
  "setCommandLock lock_command s =
     writeCommand2 0xFD (to_byte (command_lock_value lock_command)) s"

definition setDisplayClock :: "byte \<Rightarrow> byte \<Rightarrow> OLED \<Rightarrow> OLED" where
  "setDisplayClock divisor frequency s =
     writeCommand2 0xB3 (to_byte (uint divisor OR push_bit 4 (uint frequency AND 0x0F))) s"

definition setMultiPlexRatio :: "byte \<Rightarrow> OLED \<Rightarrow> OLED" where
  "setMultiPlexRatio mux_ratio s = writeCommand2 0xCA (to_byte (uint mux_ratio AND ROW_MASK)) s"

definition setDisplayOffset :: "byte \<Rightarrow> OLED \<Rightarrow> OLED" where
  "setDisplayOffset row s = writeCommand2 0xA2 (to_byte (uint row AND ROW_MASK)) s"

definition setStartRow :: "byte \<Rightarrow> OLED \<Rightarrow> OLED" where
  "setStartRow row s = writeCommand2 0xA1 (to_byte (uint row AND ROW_MASK)) s"

definition setRemapFormat :: "byte \<Rightarrow> OLED \<Rightarrow> OLED" where
  "setRemapFormat flags s = (writeCommand2 0xA0 flags s)\<lparr> remap_flags := flags \<rparr>"

definition setIncrementDirection :: "byte \<Rightarrow> OLED \<Rightarrow> OLED" where
  "setIncrementDirection direction s =
     (let remap = to_byte (uint (remap_flags s)
                    AND NOT (REMAP_HORIZONTAL_INCREMENT OR REMAP_VERTICAL_INCREMENT));
          remap = to_byte (uint remap
                    OR (uint direction AND (REMAP_VERTICAL_INCREMENT OR REMAP_HORIZONTAL_INCREMENT)))
      in (writeCommand2 0xA0 remap s)\<lparr> remap_flags := remap \<rparr>)"

definition setColorContrasts :: "byte \<Rightarrow> byte \<Rightarrow> byte \<Rightarrow> OLED \<Rightarrow> OLED" where
  "setColorContrasts a b c s = writeData c (writeData b (writeData a (writeCommand 0xC1 s)))"

definition setMasterContrast :: "byte \<Rightarrow> OLED \<Rightarrow> OLED" where
  "setMasterContrast contrast s = writeCommand2 0xC7 (to_byte (uint contrast AND 0x0F)) s"

text \<open>
  \<open>resetLength = (resetLength&~1)/2 - 1\<close> stores an \<open>int\<close> back into the \<open>byte\<close>
  parameter; the dividend is never negative, so C's truncating division and \<open>div\<close>
  agree. \<open>resetLength>>8\<close> then shifts the promoted byte right by eight.
\<close>

definition setResetPrechargePeriods :: "byte \<Rightarrow> byte \<Rightarrow> OLED \<Rightarrow> OLED" where
  "setResetPrechargePeriods resetLength precharge s =
     (let resetLength = to_byte ((uint resetLength AND NOT 1) div 2 - 1)
      in writeCommand2 0xB1
           (to_byte (drop_bit 8 (uint resetLength) OR (uint precharge AND 0x0F))) s)"

definition setPrechargeVoltage :: "byte \<Rightarrow> OLED \<Rightarrow> OLED" where
  "setPrechargeVoltage level s = writeCommand2 0xBB (to_byte (uint level AND 0x1F)) s"

definition setSecondPrechargePeriod :: "byte \<Rightarrow> OLED \<Rightarrow> OLED" where
  "setSecondPrechargePeriod clocks s =
     (let clocks = to_byte (uint clocks AND 0x0F)
      in writeCommand2 0xB6 (to_byte (if clocks \<noteq> 0 then uint clocks else 8)) s)"

definition setLockBits :: "byte \<Rightarrow> OLED \<Rightarrow> OLED" where
  "setLockBits lock_bits s = writeCommand2 0xFD lock_bits s"

subsection \<open>Window addressing\<close>

text \<open>
  Modelled from the spec: \<open>setWindow\<close>. The header defines the three window commands
  \<open>setColumn\<close>, \<open>setRow\<close> and \<open>setWriteRam\<close> but not the code that calls them
  (the drawing methods are only declared). The specification's contract for it: the
  corners are normalised (swapped if reversed), each coordinate is masked to the grid
  range, the column range and the row range are issued, and the pixel stream is begun.
  Coordinates are signed integers; the masks are the header's \<open>COLUMN_MASK\<close> and
  \<open>ROW_MASK\<close>; the three commands are the header's own.
\<close>

definition normalize_corners :: "int \<Rightarrow> int \<Rightarrow> int \<times> int" where
  "normalize_corners a b = (if b < a then (b, a) else (a, b))"

definition mask_column :: "int \<Rightarrow> byte" where
  "mask_column x = to_byte (x AND COLUMN_MASK)"

definition mask_row :: "int \<Rightarrow> byte" where
  "mask_row y = to_byte (y AND ROW_MASK)"

definition setWindow :: "int \<Rightarrow> int \<Rightarrow> int \<Rightarrow> int \<Rightarrow> OLED \<Rightarrow> OLED" where
  "setWindow x0 y0 x1 y1 s =
     (let (col_start, col_end) = normalize_corners x0 x1;
          (row_start, row_end) = normalize_corners y0 y1
      in setWriteRam
           (setRow (mask_row row_start) (mask_row row_end)
             (setColumn (mask_column col_start) (mask_column col_end) s)))"

subsection \<open>Bitmap decoding\<close>

text \<open>
  Modelled from the spec: the bitmap decoder behind \<open>displayBMP\<close>. The header declares
  the four \<open>displayBMP\<close> overloads and the template \<open>_displayBMP\<close> they share, and
  defines \<open>BMP_Status\<close>; the bodies are not in the header. The specification gives the
  decoder as one routine over a byte source that, in this order, validates the container
  signature and header length, rejects unsupported header variants, rejects a palette
  with more entries than the supported maximum, rejects unsupported compression modes,
  computes the destination window, rejects a window outside the addressable grid, and
  then streams the rows from last to first, forwarding every pixel's colour to window
  addressing. It does not give the container format, so what the format decides is a
  parameter: a \<open>bmp_format\<close> over the byte-source type \<open>'src\<close>.
\<close>

record 'src bmp_format =
  valid_signature :: "'src \<Rightarrow> bool"
  supported_header :: "'src \<Rightarrow> bool"
  palette_entries :: "'src \<Rightarrow> nat option"
  max_palette_entries :: nat
  supported_compression :: "'src \<Rightarrow> bool"
  image_width :: "'src \<Rightarrow> int"
  image_height :: "'src \<Rightarrow> int"
  pixel_rows :: "'src \<Rightarrow> Colour list list"

text \<open>
  Modelled from the spec: a destination window is rejected when it lies fully outside
  the grid of \<open>COLUMNS\<close> by \<open>ROWS\<close> pixels.
\<close>

definition window_outside_grid :: "int \<Rightarrow> int \<Rightarrow> int \<Rightarrow> int \<Rightarrow> bool" where
  "window_outside_grid x0 y0 x1 y1 \<longleftrightarrow>
     max x0 x1 < 0 \<or> COLUMNS \<le> min x0 x1 \<or> max y0 y1 < 0 \<or> ROWS \<le> min y0 y1"

text \<open>Modelled from the spec: \<open>writePixel\<close> for each pixel of a row, row after row.\<close>

fun stream_row :: "Colour list \<Rightarrow> OLED \<Rightarrow> OLED" where
  "stream_row [] s = s"
| "stream_row (c # cs) s = stream_row cs (writeData_Colour c s)"

fun stream_rows :: "Colour list list \<Rightarrow> OLED \<Rightarrow> OLED" where
  "stream_rows [] s = s"
| "stream_rows (r # rs) s = stream_rows rs (stream_row r s)"

text \<open>
  Modelled from the spec: the shared routine (\<open>_displayBMP\<close> in the header). Each
  check that fails returns its status at once, with nothing sent to the panel.
\<close>

definition displayBMP_generic ::
  "'src bmp_format \<Rightarrow> 'src \<Rightarrow> int \<Rightarrow> int \<Rightarrow> int \<Rightarrow> int \<Rightarrow> OLED \<Rightarrow> BMP_Status \<times> OLED" where
  "displayBMP_generic fmt source from_x from_y to_x to_y s =
     (if \<not> valid_signature fmt source then (BMP_INVALID_FORMAT, s)
      else if \<not> supported_header fmt source then (BMP_UNSUPPORTED_HEADER, s)
      else if (case palette_entries fmt source of
                 None \<Rightarrow> False | Some n \<Rightarrow> max_palette_entries fmt < n)
        then (BMP_TOO_MANY_COLOURS, s)
      else if \<not> supported_compression fmt source then (BMP_COMPRESSION_NOT_SUPPORTED, s)
      else if window_outside_grid from_x from_y to_x to_y then (BMP_ORIGIN_OUTSIDE_IMAGE, s)
      else (BMP_OK,
            stream_rows (rev (pixel_rows fmt source)) (setWindow from_x from_y to_x to_y s)))"

text \<open>
  Modelled from the spec: the four public entry points. The two byte-source kinds, an
  SD card \<open>File\<close> and a \<open>PROGMEM\<close> buffer, go through the same routine; the form
  with an origin only takes the width and height from the image and is the bounded form
  otherwise.
\<close>

definition displayBMP_File_bounded ::
  "'file bmp_format \<Rightarrow> 'file \<Rightarrow> int \<Rightarrow> int \<Rightarrow> int \<Rightarrow> int \<Rightarrow> OLED \<Rightarrow> BMP_Status \<times> OLED" where
  "displayBMP_File_bounded fmt source from_x from_y to_x to_y s =
     displayBMP_generic fmt source from_x from_y to_x to_y s"

definition displayBMP_File ::
  "'file bmp_format \<Rightarrow> 'file \<Rightarrow> int \<Rightarrow> int \<Rightarrow> OLED \<Rightarrow> BMP_Status \<times> OLED" where
  "displayBMP_File fmt source x y s =
     displayBMP_File_bounded fmt source x y
       (x + image_width fmt source - 1) (y + image_height fmt source - 1) s"

definition displayBMP_pgm_bounded ::
  "'buf bmp_format \<Rightarrow> 'buf \<Rightarrow> int \<Rightarrow> int \<Rightarrow> int \<Rightarrow> int \<Rightarrow> OLED \<Rightarrow> BMP_Status \<times> OLED" where
  "displayBMP_pgm_bounded fmt pgm_addr from_x from_y to_x to_y s =
     displayBMP_generic fmt pgm_addr from_x from_y to_x to_y s"

definition displayBMP_pgm ::
  "'buf bmp_format \<Rightarrow> 'buf \<Rightarrow> int \<Rightarrow> int \<Rightarrow> OLED \<Rightarrow> BMP_Status \<times> OLED" where
  "displayBMP_pgm fmt pgm_addr x y s =
     displayBMP_pgm_bounded fmt pgm_addr x y
       (x + image_width fmt pgm_addr - 1) (y + image_height fmt pgm_addr - 1) s"

text \<open>
  The bus events of one pixel, and what the panel receives for one pixel and for one
  window.
\<close>

definition pixel_events :: "Colour \<Rightarrow> bus_event list" where
  "pixel_events c =
     [SPI_transfer (ucast (drop_bit 3 (green c)) OR push_bit 3 (ucast (red c))),
      SPI_transfer (push_bit 5 (ucast (green c)) OR ucast (blue c))]"

definition pixel_frames :: "Colour \<Rightarrow> frame list" where
  "pixel_frames c =
     [Data (ucast (drop_bit 3 (green c)) OR push_bit 3 (ucast (red c))),
      Data (push_bit 5 (ucast (green c)) OR ucast (blue c))]"

definition window_frames :: "int \<Rightarrow> int \<Rightarrow> int \<Rightarrow> int \<Rightarrow> frame list" where
  "window_frames x0 y0 x1 y1 =
     [Command 0x15, Data (mask_column (min x0 x1)), Data (mask_column (max x0 x1)),
      Command 0x75, Data (mask_row (min y0 y1)), Data (mask_row (max y0 y1)),
      Command 0x5C]"

definition palette_accepted :: "'src bmp_format \<Rightarrow> 'src \<Rightarrow> bool" where
  "palette_accepted fmt source =
     (case palette_entries fmt source of None \<Rightarrow> True | Some n \<Rightarrow> n \<le> max_palette_entries fmt)"

text \<open>
  \<open>decode_outcome fmt source x0 y0 x1 y1 l s r\<close>: what the returned status \<open>fst r\<close>
  says about the checks, in their order, and about the bus of the returned state.
\<close>

definition decode_outcome ::
  "'src bmp_format \<Rightarrow> 'src \<Rightarrow> int \<Rightarrow> int \<Rightarrow> int \<Rightarrow> int \<Rightarrow> level \<Rightarrow> OLED \<Rightarrow> BMP_Status \<times> OLED \<Rightarrow> bool" where
  "decode_outcome fmt source x0 y0 x1 y1 l s r =
     (case fst r of
        BMP_INVALID_FORMAT \<Rightarrow> \<not> valid_signature fmt source \<and> snd r = s
      | BMP_UNSUPPORTED_HEADER \<Rightarrow>
          valid_signature fmt source \<and> \<not> supported_header fmt source \<and> snd r = s
      | BMP_TOO_MANY_COLOURS \<Rightarrow>
          valid_signature fmt source \<and> supported_header fmt source
          \<and> \<not> palette_accepted fmt source \<and> snd r = s
      | BMP_COMPRESSION_NOT_SUPPORTED \<Rightarrow>
          valid_signature fmt source \<and> supported_header fmt source
          \<and> palette_accepted fmt source \<and> \<not> supported_compression fmt source \<and> snd r = s
      | BMP_ORIGIN_OUTSIDE_IMAGE \<Rightarrow>
          valid_signature fmt source \<and> supported_header fmt source
          \<and> palette_accepted fmt source \<and> supported_compression fmt source
          \<and> window_outside_grid x0 y0 x1 y1 \<and> snd r = s
      | BMP_OK \<Rightarrow>
          valid_signature fmt source \<and> supported_header fmt source
          \<and> palette_accepted fmt source \<and> supported_compression fmt source
          \<and> \<not> window_outside_grid x0 y0 x1 y1
          \<and> frames (pin_dc s) l (emitted s (snd r)) =
              window_frames x0 y0 x1 y1
              @ concat (map pixel_frames (concat (rev (pixel_rows fmt source)))))"

subsection \<open>Reading the pixel wire format back\<close>

text \<open>
  The panel's reading of a pixel: the two bytes form a 16-bit word, first byte high, with
  red in bits 15-11, green in bits 10-5 and blue in bits 4-0. The driver never reads
  pixels back; \<open>unpack565\<close> is the decoder against which the encoding is checked.
\<close>

definition unpack565 :: "byte \<Rightarrow> byte \<Rightarrow> nat \<times> nat \<times> nat" where
  "unpack565 b1 b2 =
     (let w = (push_bit 8 (ucast b1) OR ucast b2 :: 16 word)
      in (unat (drop_bit 11 w), unat (drop_bit 5 w AND 0x3F), unat (w AND 0x1F)))"

fun unpack_events :: "bus_event list \<Rightarrow> (nat \<times> nat \<times> nat) option" where
  "unpack_events [SPI_transfer b1, SPI_transfer b2] = Some (unpack565 b1 b2)"
| "unpack_events es = None"

text \<open>A driver object with nothing sent on the bus yet, for concrete evaluations.\<close>

definition oled0 :: OLED where
  "oled0 = \<lparr> pin_ncs = 7, pin_dc = 2, pin_reset = 3, remap_flags = 0, gpio_status = 0,
             wire = [] \<rparr>"

text \<open>
  A container format for concrete evaluations: a source is accepted when it is not empty
  and holds one row of two pixels, pure red and pure blue.
\<close>

definition sample_format :: "byte list bmp_format" where
  "sample_format =
     \<lparr> valid_signature = (\<lambda>source. source \<noteq> []),
       supported_header = (\<lambda>source. True),
       palette_entries = (\<lambda>source. None),
       max_palette_entries = 256,
       supported_compression = (\<lambda>source. True),
       image_width = (\<lambda>source. 2),
       image_height = (\<lambda>source. 1),
       pixel_rows = (\<lambda>source. [[\<lparr> red = 31, green = 0, blue = 0 \<rparr>,
                                  \<lparr> red = 0, green = 0, blue = 31 \<rparr>]]) \<rparr>"

section \<open>Properties\<close>

subsection \<open>Bus bookkeeping\<close>

lemma emitted_append [simp]: "wire s' = wire s @ es \<Longrightarrow> emitted s s' = es"
  by (simp add: emitted_def)

lemma wire_writeCommand [simp]:
  "wire (writeCommand c s) =
     wire s @ [DigitalWrite (pin_dc s) LOW, SPI_transfer c, DigitalWrite (pin_dc s) HIGH]"
  by (simp add: writeCommand_def digitalWrite_def SPI_transfer_byte_def)

lemma wire_writeData [simp]: "wire (writeData d s) = wire s @ [SPI_transfer d]"
  by (simp add: writeData_def SPI_transfer_byte_def)

lemma pin_dc_writeCommand [simp]: "pin_dc (writeCommand c s) = pin_dc s"
  by (simp add: writeCommand_def digitalWrite_def SPI_transfer_byte_def)

lemma pin_dc_writeData [simp]: "pin_dc (writeData d s) = pin_dc s"
  by (simp add: writeData_def SPI_transfer_byte_def)

lemma wire_writeCommand2 [simp]:
  "wire (writeCommand2 c d s) =
     wire s @ [DigitalWrite (pin_dc s) LOW, SPI_transfer c, DigitalWrite (pin_dc s) HIGH,
               SPI_transfer d]"
  by (simp add: writeCommand2_def)

lemma frames_command [simp]:
  "frames dc l (DigitalWrite dc LOW # SPI_transfer c # DigitalWrite dc HIGH # es) =
     Command c # frames dc HIGH es"
  by simp

subsection \<open>Conversions between \<open>int\<close> and \<open>byte\<close>\<close>

lemma to_byte_uint [simp]: "to_byte (uint x) = x"
  by (simp add: to_byte_def)

lemma to_byte_numeral [simp]:
  "to_byte (numeral k) = numeral k" "to_byte (- numeral k) = - numeral k"
  "to_byte 0 = 0" "to_byte 1 = 1"
  by (simp_all add: to_byte_def)

lemma to_byte_AND: "to_byte (i AND j) = to_byte i AND to_byte j"
  by (simp add: to_byte_def of_int_and_eq)

lemma to_byte_OR: "to_byte (i OR j) = to_byte i OR to_byte j"
  by (simp add: to_byte_def of_int_or_eq)

lemma to_byte_NOT: "to_byte (NOT i) = NOT (to_byte i)"
  by (simp add: to_byte_def of_int_not_eq)

lemmas to_byte_bitwise = to_byte_AND to_byte_OR to_byte_NOT

lemma mask_numerals:
  "(0x1F :: 'a::len word) = mask 5" "(0x3F :: 'a::len word) = mask 6"
  "(0x0F :: 'a::len word) = mask 4" "(0x7F :: 'a::len word) = mask 7"
  by (simp_all add: mask_eq_exp_minus_1)

lemma byte_shifted_out: "drop_bit 8 (uint (b :: byte)) = 0"
  using uint_lt2p [of b] by (simp add: drop_bit_eq_div)

subsection \<open>The pixel wire format\<close>

lemma high_byte:
  "to_byte (drop_bit 3 (uint (g::6 word)) OR push_bit 3 (uint (r::5 word)))
     = ucast (drop_bit 3 g) OR push_bit 3 (ucast r)"
  unfolding to_byte_def
  by (rule bit_word_eqI) (auto simp add: bit_simps)

lemma low_byte:
  "to_byte (push_bit 5 (uint (g::6 word)) OR uint (b::5 word))
     = push_bit 5 (ucast g) OR ucast b"
  unfolding to_byte_def
  by (rule bit_word_eqI) (auto simp add: bit_simps)

lemma pack565:
  "(push_bit 8 (ucast (ucast (drop_bit 3 g) OR push_bit 3 (ucast r) :: byte))
      OR ucast (push_bit 5 (ucast g) OR ucast b :: byte) :: 16 word)
   = push_bit 11 (ucast (r::5 word)) OR push_bit 5 (ucast (g::6 word)) OR ucast (b::5 word)"
  by (rule bit_word_eqI) (auto simp add: bit_simps dest: bit_imp_le_length)

lemma wire_writeData_Colour:
  "wire (writeData_Colour c s) =
     wire s @ [SPI_transfer (ucast (drop_bit 3 (green c)) OR push_bit 3 (ucast (red c))),
               SPI_transfer (push_bit 5 (ucast (green c)) OR ucast (blue c))]"
  by (simp add: writeData_Colour_def high_byte low_byte)

text \<open>
  C1. For every \<open>Colour\<close>, \<open>writeData(Colour)\<close> adds exactly two SPI transfers to the
  bus and nothing else, which the panel reads as two data bytes while D/C is high. The
  first is \<open>(green>>3)|(red<<3)\<close> and the second \<open>(green<<5)|blue\<close>, as bytes. Read
  as a 16-bit word with the first byte high, they hold red in bits 15-11, green in bits
  10-5 and blue in bits 4-0.
\<close>

theorem writeData_Colour_565:
  "wire (writeData_Colour c s) =
     wire s @ [SPI_transfer (ucast (drop_bit 3 (green c)) OR push_bit 3 (ucast (red c))),
               SPI_transfer (push_bit 5 (ucast (green c)) OR ucast (blue c))]
   \<and> frames (pin_dc s) HIGH (emitted s (writeData_Colour c s)) =
       [Data (ucast (drop_bit 3 (green c)) OR push_bit 3 (ucast (red c))),
        Data (push_bit 5 (ucast (green c)) OR ucast (blue c))]
   \<and> (push_bit 8 (ucast (ucast (drop_bit 3 (green c)) OR push_bit 3 (ucast (red c)) :: byte))
         OR ucast (push_bit 5 (ucast (green c)) OR ucast (blue c) :: byte) :: 16 word)
       = push_bit 11 (ucast (red c)) OR push_bit 5 (ucast (green c)) OR ucast (blue c)"
  by (simp add: wire_writeData_Colour pack565)

lemma field_red:
  "drop_bit 11 (push_bit 11 (ucast (r::5 word)) OR push_bit 5 (ucast (g::6 word))
                  OR ucast (b::5 word) :: 16 word) = ucast r"
  by (rule bit_word_eqI) (auto simp add: bit_simps dest: bit_imp_le_length)

lemma field_green:
  "drop_bit 5 (push_bit 11 (ucast (r::5 word)) OR push_bit 5 (ucast (g::6 word))
                 OR ucast (b::5 word) :: 16 word) AND mask 6 = ucast g"
  by (rule bit_word_eqI) (auto simp add: bit_simps dest: bit_imp_le_length)

lemma field_blue:
  "(push_bit 11 (ucast (r::5 word)) OR push_bit 5 (ucast (g::6 word))
      OR ucast (b::5 word) :: 16 word) AND mask 5 = ucast b"
  by (rule bit_word_eqI) (auto simp add: bit_simps dest: bit_imp_le_length)

lemma unpack565_pack:
  "unpack565 (ucast (drop_bit 3 g) OR push_bit 3 (ucast r)) (push_bit 5 (ucast g) OR ucast b)
     = (unat (r::5 word), unat (g::6 word), unat (b::5 word))"
proof -
  have up5: "unat (ucast x :: 16 word) = unat x" for x :: "5 word"
    by (simp add: unsigned_ucast_eq take_bit_nat_eq_self unsigned_less [THEN less_trans])
  have up6: "unat (ucast x :: 16 word) = unat x" for x :: "6 word"
    by (simp add: unsigned_ucast_eq take_bit_nat_eq_self unsigned_less [THEN less_trans])
  show ?thesis
    unfolding unpack565_def Let_def pack565 mask_numerals field_red field_green field_blue
    by (simp only: up5 up6)
qed

lemma wire_encoding_injective:
  assumes "emitted s (writeData_Colour c s) = emitted s' (writeData_Colour c' s')"
  shows "c = c'"
proof -
  from assms have
    "unpack565 (ucast (drop_bit 3 (green c)) OR push_bit 3 (ucast (red c)))
               (push_bit 5 (ucast (green c)) OR ucast (blue c))
     = unpack565 (ucast (drop_bit 3 (green c')) OR push_bit 3 (ucast (red c')))
                 (push_bit 5 (ucast (green c')) OR ucast (blue c'))"
    by (simp add: wire_writeData_Colour)
  then have "red c = red c' \<and> green c = green c' \<and> blue c = blue c'"
    by (simp add: unpack565_pack word_unat_eq_iff)
  then show ?thesis by simp
qed

text \<open>
  C2. For every triple of channel values with red and blue at most 31 and green at most
  63, the two bytes that \<open>writeData(Colour)\<close> puts on the bus for a \<open>Colour\<close> holding
  them decode, by the 5-6-5 reading of the wire format, to the same three values.
\<close>

theorem colour_wire_roundtrip:
  assumes "r \<le> 31" and "g \<le> 63" and "b \<le> 31"
  shows "unpack_events
           (emitted s (writeData_Colour \<lparr> red = of_nat r, green = of_nat g, blue = of_nat b \<rparr> s))
         = Some (r, g, b)"
  using assms by (simp add: wire_writeData_Colour unpack565_pack unat_of_nat)

theorem colour_wire_roundtrip_witness:
  "(31::nat) \<le> 31 \<and> (42::nat) \<le> 63 \<and> (7::nat) \<le> 31
   \<and> unpack_events
        (emitted oled0
          (writeData_Colour \<lparr> red = of_nat 31, green = of_nat 42, blue = of_nat 7 \<rparr> oled0))
      = Some (31, 42, 7)"
  using colour_wire_roundtrip [of 31 42 7 oled0] by simp

subsection \<open>Channel ranges\<close>

lemma unat_5_le: "unat (x :: 5 word) \<le> 31"
  using unsigned_less [of x, where 'a = nat] by simp

lemma unat_6_le: "unat (x :: 6 word) \<le> 63"
  using unsigned_less [of x, where 'a = nat] by simp

text \<open>
  C5. Every \<open>Colour\<close> has red at most \<open>MAX_RED = 31\<close>, green at most
  \<open>MAX_GREEN = 63\<close> and blue at most \<open>MAX_BLUE = 31\<close>. Initialising a \<open>Colour\<close>
  from three arbitrary bytes and storing an arbitrary byte into one channel keep the
  bounds: the stored channel is the byte reduced modulo 32 (64 for green), and the other
  channels are untouched.
\<close>

theorem Colour_channels_in_range:
  "unat (red c) \<le> unat MAX_RED \<and> unat (green c) \<le> unat MAX_GREEN
     \<and> unat (blue c) \<le> unat MAX_BLUE
   \<and> unat MAX_RED = 31 \<and> unat MAX_GREEN = 63 \<and> unat MAX_BLUE = 31
   \<and> unat (red (Colour_init r g b)) = unat r mod 32
   \<and> unat (green (Colour_init r g b)) = unat g mod 64
   \<and> unat (blue (Colour_init r g b)) = unat b mod 32
   \<and> unat (red (set_red v c)) = unat v mod 32
   \<and> green (set_red v c) = green c \<and> blue (set_red v c) = blue c
   \<and> unat (green (set_green v c)) = unat v mod 64
   \<and> red (set_green v c) = red c \<and> blue (set_green v c) = blue c
   \<and> unat (blue (set_blue v c)) = unat v mod 32
   \<and> red (set_blue v c) = red c \<and> green (set_blue v c) = green c"
  by (simp add: MAX_RED_def MAX_GREEN_def MAX_BLUE_def unat_5_le unat_6_le
        Colour_init_def set_red_def set_green_def set_blue_def
        unsigned_ucast_eq take_bit_eq_mod)

subsection \<open>Command opcodes\<close>

lemma wire_setColumn:
  "wire (setColumn a b s) =
     wire s @ [DigitalWrite (pin_dc s) LOW, SPI_transfer 0x15, DigitalWrite (pin_dc s) HIGH,
               SPI_transfer a, SPI_transfer b]"
  by (simp add: setColumn_def)

lemma wire_setRow:
  "wire (setRow a b s) =
     wire s @ [DigitalWrite (pin_dc s) LOW, SPI_transfer 0x75, DigitalWrite (pin_dc s) HIGH,
               SPI_transfer a, SPI_transfer b]"
  by (simp add: setRow_def)

lemma wire_setWriteRam:
  "wire (setWriteRam s) =
     wire s @ [DigitalWrite (pin_dc s) LOW, SPI_transfer 0x5C, DigitalWrite (pin_dc s) HIGH]"
  by (simp add: setWriteRam_def)

lemma wire_setDisplayMode:
  "wire (setDisplayMode mode s) =
     wire s @ [DigitalWrite (pin_ncs s) LOW,
               DigitalWrite (pin_dc s) LOW,
               SPI_transfer (0xA4 + word_of_int (display_mode_value mode)),
               DigitalWrite (pin_dc s) HIGH,
               DigitalWrite (pin_ncs s) HIGH]"
  by (simp add: setDisplayMode_def assertCS_def releaseCS_def writeCommand_def
        digitalWrite_def SPI_transfer_byte_def to_byte_def)

lemma wire_setCommandLock:
  "wire (setCommandLock lock s) =
     wire s @ [DigitalWrite (pin_dc s) LOW, SPI_transfer 0xFD, DigitalWrite (pin_dc s) HIGH,
               SPI_transfer (word_of_int (command_lock_value lock))]"
  by (simp add: setCommandLock_def to_byte_def)

lemma display_mode_byte:
  "(0xA4 + word_of_int (display_mode_value mode) :: byte) =
     (case mode of DISPLAY_OFF \<Rightarrow> 0xA4 | DISPLAY_ALL_PIXELS_FULL \<Rightarrow> 0xA5
      | DISPLAY_NORMAL \<Rightarrow> 0xA6 | DISPLAY_INVERSE \<Rightarrow> 0xA7)"
  by (cases mode) simp_all

lemma command_lock_byte:
  "(word_of_int (command_lock_value lock) :: byte) =
     (case lock of DISPLAY_COMMAND_UNLOCK \<Rightarrow> 0x12 | DISPLAY_COMMAND_LOCK \<Rightarrow> 0x16
      | DISPLAY_COMMAND_LOCK_SPECIAL \<Rightarrow> 0xB0 | DISPLAY_COMMAND_ALLOW_SPECIAL \<Rightarrow> 0xB1)"
  by (cases lock) simp_all

text \<open>
  C6. Whatever the D/C level \<open>l\<close> before the call, the panel receives: from
  \<open>setColumn\<close> the command 0x15 and the data bytes start, end; from \<open>setRow\<close> the
  command 0x75 and start, end; from \<open>setWriteRam\<close> the command 0x5C alone; from
  \<open>setDisplayMode\<close> the single command byte 0xA4 plus the mode's value, which is 0xA4,
  0xA5, 0xA6 or 0xA7 for the four modes; from \<open>setCommandLock\<close> the command 0xFD and the
  lock byte as data.
\<close>

theorem command_opcodes:
  "frames (pin_dc s) l (emitted s (setColumn start end s))
     = [Command 0x15, Data start, Data end]
   \<and> frames (pin_dc s) l (emitted s (setRow start end s))
     = [Command 0x75, Data start, Data end]
   \<and> frames (pin_dc s) l (emitted s (setWriteRam s)) = [Command 0x5C]
   \<and> frames (pin_dc s) l (emitted s (setDisplayMode mode s))
     = [Command (0xA4 + word_of_int (display_mode_value mode))]
   \<and> (0xA4 + word_of_int (display_mode_value mode) :: byte)
     = (case mode of DISPLAY_OFF \<Rightarrow> 0xA4 | DISPLAY_ALL_PIXELS_FULL \<Rightarrow> 0xA5
        | DISPLAY_NORMAL \<Rightarrow> 0xA6 | DISPLAY_INVERSE \<Rightarrow> 0xA7)
   \<and> frames (pin_dc s) l (emitted s (setCommandLock lock s))
     = [Command 0xFD, Data (word_of_int (command_lock_value lock))]
   \<and> (word_of_int (command_lock_value lock) :: byte)
     = (case lock of DISPLAY_COMMAND_UNLOCK \<Rightarrow> 0x12 | DISPLAY_COMMAND_LOCK \<Rightarrow> 0x16
        | DISPLAY_COMMAND_LOCK_SPECIAL \<Rightarrow> 0xB0 | DISPLAY_COMMAND_ALLOW_SPECIAL \<Rightarrow> 0xB1)"
  by (simp add: wire_setColumn wire_setRow wire_setWriteRam wire_setDisplayMode
        wire_setCommandLock display_mode_byte command_lock_byte)

subsection \<open>Reset and precharge periods\<close>

lemma wire_setResetPrechargePeriods:
  "wire (setResetPrechargePeriods resetLength precharge s) =
     wire s @ [DigitalWrite (pin_dc s) LOW, SPI_transfer 0xB1, DigitalWrite (pin_dc s) HIGH,
               SPI_transfer (precharge AND 0x0F)]"
  by (simp add: setResetPrechargePeriods_def byte_shifted_out to_byte_bitwise)

lemma reset_precharge_high_nibble:
  "frames (pin_dc s) l (emitted s (setResetPrechargePeriods resetLength precharge s))
     = [Command 0xB1, Data (precharge AND 0x0F)]
   \<and> drop_bit 4 (precharge AND 0x0F) = 0"
proof -
  have "drop_bit 4 (precharge AND mask 4) = 0"
    by (rule bit_word_eqI) (simp add: bit_simps)
  then show ?thesis
    by (simp add: wire_setResetPrechargePeriods mask_numerals)
qed

text \<open>
  C7. At \<open>resetLength = 5\<close> and \<open>precharge = 3\<close> the panel receives the command
  0xB1 and the data byte 0x03: the high nibble of the data byte is 0, and nothing of the
  reset length reaches the bus.
\<close>

theorem setResetPrechargePeriods_5_3:
  "frames (pin_dc oled0) HIGH (emitted oled0 (setResetPrechargePeriods 5 3 oled0))
     = [Command 0xB1, Data 0x03]
   \<and> drop_bit 4 (0x03 :: byte) = 0"
  by (simp add: wire_setResetPrechargePeriods)

subsection \<open>Masked register writes\<close>

lemma wire_setMasterContrast:
  "wire (setMasterContrast contrast s) =
     wire s @ [DigitalWrite (pin_dc s) LOW, SPI_transfer 0xC7, DigitalWrite (pin_dc s) HIGH,
               SPI_transfer (contrast AND 0x0F)]"
  by (simp add: setMasterContrast_def to_byte_bitwise)

lemma wire_setPrechargeVoltage:
  "wire (setPrechargeVoltage level s) =
     wire s @ [DigitalWrite (pin_dc s) LOW, SPI_transfer 0xBB, DigitalWrite (pin_dc s) HIGH,
               SPI_transfer (level AND 0x1F)]"
  by (simp add: setPrechargeVoltage_def to_byte_bitwise)

lemma wire_setDisplayOffset:
  "wire (setDisplayOffset row s) =
     wire s @ [DigitalWrite (pin_dc s) LOW, SPI_transfer 0xA2, DigitalWrite (pin_dc s) HIGH,
               SPI_transfer (row AND 0x7F)]"
  by (simp add: setDisplayOffset_def to_byte_bitwise ROW_MASK_def ROWS_def)

lemma wire_setStartRow:
  "wire (setStartRow row s) =
     wire s @ [DigitalWrite (pin_dc s) LOW, SPI_transfer 0xA1, DigitalWrite (pin_dc s) HIGH,
               SPI_transfer (row AND 0x7F)]"
  by (simp add: setStartRow_def to_byte_bitwise ROW_MASK_def ROWS_def)

text \<open>
  C8. For every input byte, the one data byte that follows the command is the input
  masked, and so within the register's range: at most 0x0F after 0xC7
  (\<open>setMasterContrast\<close>), at most 0x1F after 0xBB (\<open>setPrechargeVoltage\<close>), at most 127
  after 0xA2 (\<open>setDisplayOffset\<close>) and after 0xA1 (\<open>setStartRow\<close>).
\<close>

theorem masked_register_writes:
  "frames (pin_dc s) l (emitted s (setMasterContrast contrast s))
     = [Command 0xC7, Data (contrast AND 0x0F)]
   \<and> contrast AND 0x0F \<le> 0x0F
   \<and> frames (pin_dc s) l (emitted s (setPrechargeVoltage level s))
     = [Command 0xBB, Data (level AND 0x1F)]
   \<and> level AND 0x1F \<le> 0x1F
   \<and> frames (pin_dc s) l (emitted s (setDisplayOffset row s))
     = [Command 0xA2, Data (row AND 0x7F)]
   \<and> frames (pin_dc s) l (emitted s (setStartRow row s))
     = [Command 0xA1, Data (row AND 0x7F)]
   \<and> unat (row AND 0x7F) \<le> 127"
proof -
  have "unat (row AND 0x7F) \<le> unat (0x7F :: byte)"
    by (rule word_and_le1 [THEN word_le_nat_alt [THEN iffD1]])
  then show ?thesis
    by (simp add: wire_setMasterContrast wire_setPrechargeVoltage wire_setDisplayOffset
          wire_setStartRow word_and_le1)
qed

subsection \<open>Increment direction\<close>

lemma increment_direction_byte:
  "to_byte (uint (to_byte (uint old
        AND NOT (REMAP_HORIZONTAL_INCREMENT OR REMAP_VERTICAL_INCREMENT)))
      OR (uint direction AND (REMAP_VERTICAL_INCREMENT OR REMAP_HORIZONTAL_INCREMENT)))
   = (old AND NOT 1) OR (direction AND 1)"
  by (simp add: to_byte_bitwise REMAP_HORIZONTAL_INCREMENT_def REMAP_VERTICAL_INCREMENT_def)

lemma setIncrementDirection_eq:
  "setIncrementDirection direction s =
     (writeCommand2 0xA0 ((remap_flags s AND NOT 1) OR (direction AND 1)) s)
       \<lparr> remap_flags := (remap_flags s AND NOT 1) OR (direction AND 1) \<rparr>"
  unfolding setIncrementDirection_def Let_def increment_direction_byte ..

lemma even_flag_kept:
  fixes old direction m :: byte
  assumes "\<not> bit m 0"
  shows "((old AND NOT 1) OR (direction AND 1)) AND m = old AND m"
proof (rule bit_word_eqI)
  fix n assume "n < LENGTH(8)"
  show "bit (((old AND NOT 1) OR (direction AND 1)) AND m) n = bit (old AND m) n"
    using assms by (cases "n = 0") (auto simp add: bit_simps dest: bit_imp_le_length)
qed

lemma takes_direction_bit:
  "((old AND NOT 1) OR (direction AND 1)) AND 1 = direction AND (1 :: byte)"
  by (rule bit_word_eqI) (auto simp add: bit_simps)

lemma flags_even:
  "\<not> bit (0xFE :: byte) 0"
  "\<not> bit (to_byte REMAP_COLUMNS_RIGHT_TO_LEFT) 0"
  "\<not> bit (to_byte REMAP_ORDER_RGB) 0"
  "\<not> bit (to_byte REMAP_SCAN_DOWN_TO_UP) 0"
  "\<not> bit (to_byte REMAP_COM_SPLIT_ODD_EVEN) 0"
  "\<not> bit (to_byte (REMAP_COLOR_RGB565 OR REMAP_COLOR_18BIT)) 0"
  by (simp_all add: REMAP_COLUMNS_RIGHT_TO_LEFT_def REMAP_ORDER_RGB_def
        REMAP_SCAN_DOWN_TO_UP_def REMAP_COM_SPLIT_ODD_EVEN_def REMAP_COLOR_RGB565_def
        REMAP_COLOR_18BIT_def bit_0)

text \<open>
  C9. \<open>setIncrementDirection\<close> sends command 0xA0 with one data byte and stores that
  same byte in \<open>remap_flags\<close>. The byte agrees with the previous \<open>remap_flags\<close> on
  bits 1 to 7 and with the \<open>direction\<close> argument on bit 0, the increment-direction
  bit; the column order, colour order, scan direction, COM split and colour depth flags
  are those of the previous \<open>remap_flags\<close>.
\<close>

theorem setIncrementDirection_frame:
  "frames (pin_dc s) l (emitted s (setIncrementDirection direction s))
     = [Command 0xA0, Data (remap_flags (setIncrementDirection direction s))]
   \<and> remap_flags (setIncrementDirection direction s) AND 0xFE = remap_flags s AND 0xFE
   \<and> remap_flags (setIncrementDirection direction s) AND to_byte REMAP_VERTICAL_INCREMENT
     = direction AND to_byte REMAP_VERTICAL_INCREMENT
   \<and> remap_flags (setIncrementDirection direction s) AND to_byte REMAP_COLUMNS_RIGHT_TO_LEFT
     = remap_flags s AND to_byte REMAP_COLUMNS_RIGHT_TO_LEFT
   \<and> remap_flags (setIncrementDirection direction s) AND to_byte REMAP_ORDER_RGB
     = remap_flags s AND to_byte REMAP_ORDER_RGB
   \<and> remap_flags (setIncrementDirection direction s) AND to_byte REMAP_SCAN_DOWN_TO_UP
     = remap_flags s AND to_byte REMAP_SCAN_DOWN_TO_UP
   \<and> remap_flags (setIncrementDirection direction s) AND to_byte REMAP_COM_SPLIT_ODD_EVEN
     = remap_flags s AND to_byte REMAP_COM_SPLIT_ODD_EVEN
   \<and> remap_flags (setIncrementDirection direction s)
        AND to_byte (REMAP_COLOR_RGB565 OR REMAP_COLOR_18BIT)
     = remap_flags s AND to_byte (REMAP_COLOR_RGB565 OR REMAP_COLOR_18BIT)"
proof -
  let ?new = "(remap_flags s AND NOT 1) OR (direction AND 1)"
  have new: "remap_flags (setIncrementDirection direction s) = ?new"
    by (simp add: setIncrementDirection_eq)
  have wire: "wire (setIncrementDirection direction s) =
     wire s @ [DigitalWrite (pin_dc s) LOW, SPI_transfer 0xA0, DigitalWrite (pin_dc s) HIGH,
               SPI_transfer ?new]"
    by (simp add: setIncrementDirection_eq)
  have frame: "frames (pin_dc s) l (emitted s (setIncrementDirection direction s))
     = [Command 0xA0, Data ?new]"
    by (simp add: wire)
  have vertical: "to_byte REMAP_VERTICAL_INCREMENT = 1"
    by (simp add: REMAP_VERTICAL_INCREMENT_def)
  have dir: "?new AND to_byte REMAP_VERTICAL_INCREMENT
     = direction AND to_byte REMAP_VERTICAL_INCREMENT"
    unfolding vertical by (rule takes_direction_bit)
  show ?thesis
    unfolding new
    by (intro conjI frame dir even_flag_kept flags_even)
qed

subsection \<open>Second precharge period\<close>

lemma wire_setSecondPrechargePeriod:
  "wire (setSecondPrechargePeriod clocks s) =
     wire s @ [DigitalWrite (pin_dc s) LOW, SPI_transfer 0xB6, DigitalWrite (pin_dc s) HIGH,
               SPI_transfer (if clocks AND 0x0F = 0 then 8 else clocks AND 0x0F)]"
  by (simp add: setSecondPrechargePeriod_def to_byte_bitwise)

text \<open>
  C10. For every input byte, \<open>setSecondPrechargePeriod\<close> sends command 0xB6 with one
  data byte: the input masked to its low four bits, or 8 when that is 0. The data byte
  is at least 1 and at most 15.
\<close>

theorem setSecondPrechargePeriod_range:
  "frames (pin_dc s) l (emitted s (setSecondPrechargePeriod clocks s))
     = [Command 0xB6, Data (if clocks AND 0x0F = 0 then 8 else clocks AND 0x0F)]
   \<and> 1 \<le> unat (if clocks AND 0x0F = 0 then 8 else clocks AND 0x0F)
   \<and> unat (if clocks AND 0x0F = 0 then 8 else clocks AND 0x0F) \<le> 15"
proof -
  have le: "unat (clocks AND 0x0F) \<le> unat (0x0F :: byte)"
    by (rule word_and_le1 [THEN word_le_nat_alt [THEN iffD1]])
  have "clocks AND 0x0F \<noteq> 0 \<Longrightarrow> 1 \<le> unat (clocks AND 0x0F)"
    by (simp add: unat_gt_0 Suc_le_eq)
  with le show ?thesis
    by (simp add: wire_setSecondPrechargePeriod)
qed

subsection \<open>The write window\<close>

lemma pin_dc_setColumn [simp]: "pin_dc (setColumn a b s) = pin_dc s"
  by (simp add: setColumn_def)

lemma pin_dc_setRow [simp]: "pin_dc (setRow a b s) = pin_dc s"
  by (simp add: setRow_def)

lemma normalize_corners_min_max: "normalize_corners a b = (min a b, max a b)"
  by (simp add: normalize_corners_def min_def max_def)

lemma wire_setWindow:
  "wire (setWindow x0 y0 x1 y1 s) =
     wire s @ [DigitalWrite (pin_dc s) LOW, SPI_transfer 0x15, DigitalWrite (pin_dc s) HIGH,
               SPI_transfer (mask_column (min x0 x1)), SPI_transfer (mask_column (max x0 x1)),
               DigitalWrite (pin_dc s) LOW, SPI_transfer 0x75, DigitalWrite (pin_dc s) HIGH,
               SPI_transfer (mask_row (min y0 y1)), SPI_transfer (mask_row (max y0 y1)),
               DigitalWrite (pin_dc s) LOW, SPI_transfer 0x5C, DigitalWrite (pin_dc s) HIGH]"
  by (simp add: setWindow_def normalize_corners_min_max wire_setColumn wire_setRow
        wire_setWriteRam)
















subsection \<open>Bitmap status\<close>

lemma pin_dc_writeData_Colour [simp]: "pin_dc (writeData_Colour c s) = pin_dc s"
  by (simp add: writeData_Colour_def)

lemma wire_stream_row:
  "wire (stream_row cs s) = wire s @ concat (map pixel_events cs)"
  by (induction cs arbitrary: s) (simp_all add: wire_writeData_Colour pixel_events_def)

lemma wire_stream_rows:
  "wire (stream_rows rs s) = wire s @ concat (map pixel_events (concat rs))"
  by (induction rs arbitrary: s) (simp_all add: wire_stream_row)

lemma frames_pixels:
  "frames dc HIGH (concat (map pixel_events cs)) = concat (map pixel_frames cs)"
  by (induction cs) (simp_all add: pixel_events_def pixel_frames_def)

lemma frames_decoded_image:
  "frames (pin_dc s) l
     (emitted s (stream_rows rs (setWindow x0 y0 x1 y1 s)))
   = window_frames x0 y0 x1 y1 @ concat (map pixel_frames (concat rs))"
  by (simp add: wire_stream_rows wire_setWindow window_frames_def frames_pixels)

lemma BMP_Status_closed:
  "st \<in> {BMP_OK, BMP_INVALID_FORMAT, BMP_UNSUPPORTED_HEADER, BMP_TOO_MANY_COLOURS,
          BMP_COMPRESSION_NOT_SUPPORTED, BMP_ORIGIN_OUTSIDE_IMAGE}"
  by (cases st) simp_all

lemma displayBMP_generic_outcome:
  "decode_outcome fmt source x0 y0 x1 y1 l s (displayBMP_generic fmt source x0 y0 x1 y1 s)"
  by (simp add: decode_outcome_def displayBMP_generic_def palette_accepted_def
        frames_decoded_image split: option.splits)

text \<open>
  C4. Each of the four \<open>displayBMP\<close> entry points returns one status, a member of
  the six-element set of \<open>BMP_Status\<close>. The status tells which check was the first to
  fail: every check before it passed, the check itself failed, and the driver state is
  the one before the call, with nothing sent to the panel. \<open>BMP_OK\<close> is returned only
  when every check passed, and then the panel has received the window commands followed
  by every pixel of every row, the rows from last to first.
\<close>

theorem displayBMP_status:
  "fst (displayBMP_File fmt source x y s)
     \<in> {BMP_OK, BMP_INVALID_FORMAT, BMP_UNSUPPORTED_HEADER, BMP_TOO_MANY_COLOURS,
         BMP_COMPRESSION_NOT_SUPPORTED, BMP_ORIGIN_OUTSIDE_IMAGE}
   \<and> fst (displayBMP_File_bounded fmt source x0 y0 x1 y1 s)
     \<in> {BMP_OK, BMP_INVALID_FORMAT, BMP_UNSUPPORTED_HEADER, BMP_TOO_MANY_COLOURS,
         BMP_COMPRESSION_NOT_SUPPORTED, BMP_ORIGIN_OUTSIDE_IMAGE}
   \<and> fst (displayBMP_pgm fmt' pgm_addr x y s)
     \<in> {BMP_OK, BMP_INVALID_FORMAT, BMP_UNSUPPORTED_HEADER, BMP_TOO_MANY_COLOURS,
         BMP_COMPRESSION_NOT_SUPPORTED, BMP_ORIGIN_OUTSIDE_IMAGE}
   \<and> fst (displayBMP_pgm_bounded fmt' pgm_addr x0 y0 x1 y1 s)
     \<in> {BMP_OK, BMP_INVALID_FORMAT, BMP_UNSUPPORTED_HEADER, BMP_TOO_MANY_COLOURS,
         BMP_COMPRESSION_NOT_SUPPORTED, BMP_ORIGIN_OUTSIDE_IMAGE}
   \<and> decode_outcome fmt source x y
        (x + image_width fmt source - 1) (y + image_height fmt source - 1) l s
        (displayBMP_File fmt source x y s)
   \<and> decode_outcome fmt source x0 y0 x1 y1 l s
        (displayBMP_File_bounded fmt source x0 y0 x1 y1 s)
   \<and> decode_outcome fmt' pgm_addr x y
        (x + image_width fmt' pgm_addr - 1) (y + image_height fmt' pgm_addr - 1) l s
        (displayBMP_pgm fmt' pgm_addr x y s)
   \<and> decode_outcome fmt' pgm_addr x0 y0 x1 y1 l s
        (displayBMP_pgm_bounded fmt' pgm_addr x0 y0 x1 y1 s)"
  by (simp only: BMP_Status_closed displayBMP_File_def displayBMP_File_bounded_def
        displayBMP_pgm_def displayBMP_pgm_bounded_def displayBMP_generic_outcome simp_thms)

theorem displayBMP_status_witness:
  "displayBMP_pgm sample_format [] 0 0 oled0 = (BMP_INVALID_FORMAT, oled0)
   \<and> fst (displayBMP_pgm sample_format [0x42] 0 0 oled0) = BMP_OK
   \<and> frames (pin_dc oled0) HIGH
        (emitted oled0 (snd (displayBMP_pgm sample_format [0x42] 0 0 oled0)))
      = [Command 0x15, Data 0, Data 1, Command 0x75, Data 0, Data 0, Command 0x5C,
         Data 0xF8, Data 0, Data 0, Data 0x1F]"
proof -
  have rejected: "displayBMP_pgm sample_format [] 0 0 oled0 = (BMP_INVALID_FORMAT, oled0)"
    by (simp add: displayBMP_pgm_def displayBMP_pgm_bounded_def displayBMP_generic_def
          sample_format_def)
  have ok: "fst (displayBMP_pgm sample_format [0x42] 0 0 oled0) = BMP_OK"
    by (simp add: displayBMP_pgm_def displayBMP_pgm_bounded_def displayBMP_generic_def
          sample_format_def window_outside_grid_def COLUMNS_def ROWS_def)
  have "decode_outcome sample_format [0x42] 0 0
          (0 + image_width sample_format [0x42] - 1) (0 + image_height sample_format [0x42] - 1)
          HIGH oled0 (displayBMP_pgm sample_format [0x42] 0 0 oled0)"
    using displayBMP_status [of sample_format "[0x42]" 0 0 oled0 0 0 0 0
                                sample_format "[0x42]" HIGH]
    by simp
  then have sent: "frames (pin_dc oled0) HIGH
        (emitted oled0 (snd (displayBMP_pgm sample_format [0x42] 0 0 oled0)))
      = window_frames 0 0 1 0
        @ concat (map pixel_frames (concat (rev (pixel_rows sample_format [0x42]))))"
    by (simp add: decode_outcome_def ok) (simp add: sample_format_def)
  have "window_frames 0 0 1 0
        @ concat (map pixel_frames (concat (rev (pixel_rows sample_format [0x42]))))
      = [Command 0x15, Data 0, Data 1, Command 0x75, Data 0, Data 0, Command 0x5C,
         Data 0xF8, Data 0, Data 0, Data 0x1F]"
    by (simp add: window_frames_def pixel_frames_def sample_format_def
          mask_column_def mask_row_def COLUMN_MASK_def COLUMNS_def ROW_MASK_def ROWS_def)
  with sent rejected ok show ?thesis
    by (simp only: simp_thms)
qed

end
